theory Spec2Isabelle
  imports Complex_Main "HOL-Library.Sublist"
begin

section \<open>Strings and the built-in conversions of the interpreter\<close>

text \<open>
  The request handler of \<^verbatim>\<open>render_geojson.py\<close> receives its parameters as a
  dictionary from \<^verbatim>\<open>str\<close> to \<^verbatim>\<open>str\<close> (\<^verbatim>\<open>request.parameterMap()\<close>). Strings are
  modelled as \<^typ>\<open>string\<close>, a character being a code point below 256; the
  literals of the module are all ASCII.
\<close>

type_synonym params = "string \<rightharpoonup> string"

text \<open>
  The whitespace that \<^verbatim>\<open>int\<close> and \<^verbatim>\<open>float\<close> skip around a number: tab, LF,
  VT, FF, CR and space, and the two other whitespace code points below 256,
  NEL (0x85) and the no-break space (0xA0), which the conversions first turn
  into spaces. The separators 0x1C..0x1F are not skipped.
\<close>

definition is_space :: "char \<Rightarrow> bool" where
  "is_space c = ((9 \<le> (of_char c :: nat) \<and> (of_char c :: nat) \<le> 13)
      \<or> (of_char c :: nat) = 32 \<or> (of_char c :: nat) = 133 \<or> (of_char c :: nat) = 160)"

definition py_strip :: "string \<Rightarrow> string" where
  "py_strip s = rev (dropWhile is_space (rev (dropWhile is_space s)))"

definition is_digit :: "char \<Rightarrow> bool" where
  "is_digit c = (48 \<le> (of_char c :: nat) \<and> (of_char c :: nat) \<le> 57)"

definition digit_val :: "char \<Rightarrow> nat" where
  "digit_val c = (of_char c :: nat) - 48"

text \<open>
  Numeric literals may group digits with single underscores: an underscore is
  accepted only directly after a digit and directly before a digit.
  \<open>drop_underscores prev s\<close> removes them, or fails; \<open>prev\<close> tells whether the
  character before \<open>s\<close> was a digit.
\<close>

fun drop_underscores :: "bool \<Rightarrow> string \<Rightarrow> string option" where
  "drop_underscores prev [] = Some []"
| "drop_underscores prev (c # cs) =
     (if c = CHR ''_'' then
        (if prev \<and> cs \<noteq> [] \<and> is_digit (hd cs) then drop_underscores False cs else None)
      else map_option ((#) c) (drop_underscores (is_digit c) cs))"

fun digits_value :: "nat \<Rightarrow> string \<Rightarrow> nat" where
  "digits_value acc [] = acc"
| "digits_value acc (c # cs) = digits_value (10 * acc + digit_val c) cs"

definition all_digits :: "string \<Rightarrow> bool" where
  "all_digits s = (s \<noteq> [] \<and> list_all is_digit s)"

text \<open>
  \<^verbatim>\<open>int(s)\<close> for a string \<open>s\<close>, base 10: surrounding whitespace is stripped, one
  optional sign, then at least one decimal digit. \<open>None\<close> stands for the
  \<^verbatim>\<open>ValueError\<close> the interpreter raises on any other text. (The limit that
  recent interpreters put on the number of digits is not modelled.)
\<close>

definition unsigned_int :: "string \<Rightarrow> int option" where
  "unsigned_int s = (if all_digits s then Some (int (digits_value 0 s)) else None)"

definition py_int :: "string \<Rightarrow> int option" where
  "py_int s =
     (case drop_underscores False (py_strip s) of
        None \<Rightarrow> None
      | Some [] \<Rightarrow> None
      | Some (c # cs) \<Rightarrow>
          (if c = CHR ''-'' then map_option uminus (unsigned_int cs)
           else if c = CHR ''+'' then unsigned_int cs
           else unsigned_int (c # cs)))"

text \<open>
  \<^verbatim>\<open>float(s)\<close> for a string: whitespace stripped, optional sign, then
  \<^verbatim>\<open>inf\<close>, \<^verbatim>\<open>infinity\<close> or \<^verbatim>\<open>nan\<close> in any case, or a decimal literal
  (digits with an optional point and at least one digit, optional exponent).
  A finite value is kept as the exact rational the literal denotes; rounding to
  binary64 is outside the model.
\<close>

datatype pyfloat = Finite rat | Infinity bool | NaN

text \<open>
  \<^verbatim>\<open>str.lower\<close> and \<^verbatim>\<open>str.upper\<close>, character by character, on ASCII letters;
  every other character is kept.
\<close>

definition lower_char :: "char \<Rightarrow> char" where
  "lower_char c = (if 65 \<le> (of_char c :: nat) \<and> (of_char c :: nat) \<le> 90
                   then char_of ((of_char c :: nat) + 32) else c)"

definition upper_char :: "char \<Rightarrow> char" where
  "upper_char c = (if 97 \<le> (of_char c :: nat) \<and> (of_char c :: nat) \<le> 122
                   then char_of ((of_char c :: nat) - 32) else c)"

definition py_upper :: "string \<Rightarrow> string" where
  "py_upper s = map upper_char s"

definition scale10 :: "int \<Rightarrow> int \<Rightarrow> rat" where
  "scale10 m e = (if 0 \<le> e then of_int m * 10 ^ nat e else of_int m / 10 ^ nat (- e))"

text \<open>The exponent part: empty, or \<^verbatim>\<open>e\<close>/\<^verbatim>\<open>E\<close>, an optional sign and digits.\<close>

definition exponent_value :: "string \<Rightarrow> int option" where
  "exponent_value s =
     (case s of
        [] \<Rightarrow> Some 0
      | c # cs \<Rightarrow>
          (if lower_char c \<noteq> CHR ''e'' then None
           else case cs of
                  [] \<Rightarrow> None
                | d # ds \<Rightarrow>
                    (if d = CHR ''-'' then map_option uminus (unsigned_int ds)
                     else if d = CHR ''+'' then unsigned_int ds
                     else unsigned_int cs)))"

definition decimal_value :: "string \<Rightarrow> rat option" where
  "decimal_value s =
     (let ip = takeWhile is_digit s;
          r1 = dropWhile is_digit s;
          has_point = (r1 \<noteq> [] \<and> hd r1 = CHR ''.'');
          r2 = (if has_point then tl r1 else r1);
          fp = (if has_point then takeWhile is_digit r2 else []);
          r3 = (if has_point then dropWhile is_digit r2 else r2)
      in if ip = [] \<and> fp = [] then None
         else case exponent_value r3 of
                None \<Rightarrow> None
              | Some e \<Rightarrow> Some (scale10 (int (digits_value 0 (ip @ fp))) (e - int (length fp))))"

definition unsigned_float :: "string \<Rightarrow> pyfloat option" where
  "unsigned_float s =
     (let l = map lower_char s in
      if l = ''inf'' \<or> l = ''infinity'' then Some (Infinity True)
      else if l = ''nan'' then Some NaN
      else map_option Finite (decimal_value s))"

fun negate :: "pyfloat \<Rightarrow> pyfloat" where
  "negate (Finite q) = Finite (- q)"
| "negate (Infinity b) = Infinity (\<not> b)"
| "negate NaN = NaN"

definition py_float :: "string \<Rightarrow> pyfloat option" where
  "py_float s =
     (case drop_underscores False (py_strip s) of
        None \<Rightarrow> None
      | Some [] \<Rightarrow> None
      | Some (c # cs) \<Rightarrow>
          (if c = CHR ''-'' then map_option negate (unsigned_float cs)
           else if c = CHR ''+'' then unsigned_float cs
           else unsigned_float (c # cs)))"

text \<open>\<^verbatim>\<open>s.split(',')\<close>: the fields between the separators, empty fields kept.\<close>

fun split_on :: "char \<Rightarrow> string \<Rightarrow> string list" where
  "split_on sep [] = [[]]"
| "split_on sep (c # cs) =
     (if c = sep then [] # split_on sep cs
      else (case split_on sep cs of
              [] \<Rightarrow> [[c]]
            | w # ws \<Rightarrow> (c # w) # ws))"

text \<open>\<^verbatim>\<open>old in s\<close> on strings.\<close>

fun contains :: "string \<Rightarrow> string \<Rightarrow> bool" where
  "contains old [] = (old = [])"
| "contains old (c # cs) = (prefix old (c # cs) \<or> contains old cs)"

text \<open>
  \<^verbatim>\<open>s.replace(old, new)\<close> for a non-empty \<open>old\<close> (the module only replaces the
  token \<^verbatim>\<open>$type\<close>): every occurrence, left to right, without overlap. The
  counter is the number of characters of a matched occurrence still to skip.
\<close>

fun replace_from :: "nat \<Rightarrow> string \<Rightarrow> string \<Rightarrow> string \<Rightarrow> string" where
  "replace_from k old new [] = []"
| "replace_from (Suc k) old new (c # cs) = replace_from k old new cs"
| "replace_from 0 old new (c # cs) =
     (if prefix old (c # cs) then new @ replace_from (length old - 1) old new cs
      else c # replace_from 0 old new cs)"

definition py_replace :: "string \<Rightarrow> string \<Rightarrow> string \<Rightarrow> string" where
  "py_replace old new s = replace_from 0 old new s"


section \<open>Exceptions, collaborators and the call trace\<close>

text \<open>
  The exceptions that can leave \<^verbatim>\<open>handle_requests\<close>: the module's own
  \<^verbatim>\<open>ParameterError\<close> with its message, the \<^verbatim>\<open>ValueError\<close> of the built-in
  conversion \<^verbatim>\<open>int\<close> (carrying the rejected text), and any other exception
  raised by a collaborator, with its type name and detail.
\<close>

datatype pyexc =
    ParameterError string
  | ValueError string
  | OtherError string string

fun type_name :: "pyexc \<Rightarrow> string" where
  "type_name (ParameterError m) = ''ParameterError''"
| "type_name (ValueError m) = ''ValueError''"
| "type_name (OtherError n m) = n"

record map_settings =
  output_width :: int
  output_height :: int
  output_dpi :: int
  extent :: "pyfloat \<times> pyfloat \<times> pyfloat \<times> pyfloat"
  layers :: "string list"

text \<open>
  Every call that leaves the filter is recorded, in order: each call of
  \<^verbatim>\<open>_resolve_url\<close>, its file-system test and its download, layer construction
  and style loading, the render job, the operations on the request handler and
  the messages sent to the log.
\<close>

datatype event =
    Resolve string
  | Exists string
  | Fetch string
  | NewLayer string string string
  | LoadStyle string string
  | Render map_settings
  | Clear
  | SetHeader string string
  | AppendBody string
  | Log string

text \<open>
  The collaborators are parameters of the model. \<open>prefix_path\<close> is the
  environment variable \<^verbatim>\<open>QGIS_RENDERGEOJSON_PREFIX\<close>; \<open>path_exists\<close> is
  \<^verbatim>\<open>os.path.exists\<close>; \<open>format_exc\<close> is the text of the traceback.

  \<open>urlretrieve\<close> saves the resource to a temporary file and returns its path,
  or raises: \<open>BadReference\<close> is a \<^verbatim>\<open>ValueError\<close> (or a subclass), which is what
  \<^verbatim>\<open>urllib\<close> raises for a reference that is not a URL; \<open>FetchFailed\<close> is any
  other exception (unreachable host, HTTP error, ...), with type name and detail.

  \<open>render\<close> stands for lines 127 to 147 as a whole: configuring the map
  settings, running the render job and encoding the image as PNG; it returns
  the bytes or raises an exception, given by type name and detail.
\<close>

datatype fetched = Saved string | BadReference | FetchFailed string string

datatype rendered = Image string | RenderFailed string string

record env =
  prefix_path :: "string option"
  path_exists :: "string \<Rightarrow> bool"
  urlretrieve :: "string \<Rightarrow> fetched"
  render :: "map_settings \<Rightarrow> rendered"
  format_exc :: "pyexc \<Rightarrow> string"

text \<open>
  A computation returns its result, or the exception it raised, together with
  the events it caused.
\<close>

type_synonym 'a action = "(pyexc + 'a) \<times> event list"

definition emit :: "event \<Rightarrow> unit action" where
  "emit ev = (Inr (), [ev])"

definition done_with :: "'a \<Rightarrow> 'a action" where
  "done_with x = (Inr x, [])"

definition raise_exc :: "pyexc \<Rightarrow> 'a action" where
  "raise_exc e = (Inl e, [])"

definition and_then :: "'a action \<Rightarrow> ('a \<Rightarrow> 'b action) \<Rightarrow> 'b action" where
  "and_then m f =
     (case m of
        (Inl e, t) \<Rightarrow> (Inl e, t)
      | (Inr x, t) \<Rightarrow> (case f x of (r, t') \<Rightarrow> (r, t @ t')))"

section \<open>Parameter validation\<close>

record render_request =
  geojson_ref :: string
  style_ref :: string
  width :: int
  height :: int
  dpi :: int
  bbox :: "pyfloat \<times> pyfloat \<times> pyfloat \<times> pyfloat"

definition get_geojson :: "params \<Rightarrow> pyexc + string" where
  "get_geojson pm =
     (case pm ''GEOJSON'' of
        None \<Rightarrow> Inl (ParameterError ''Parameter GEOJSON must be set.'')
      | Some g \<Rightarrow> Inr g)"

definition get_style :: "params \<Rightarrow> pyexc + string" where
  "get_style pm =
     (case pm ''STYLE'' of
        None \<Rightarrow> Inl (ParameterError ''Parameter STYLE must be set.'')
      | Some s \<Rightarrow> Inr s)"

text \<open>
  \<^verbatim>\<open>int(params['WIDTH'])\<close> under \<^verbatim>\<open>except (KeyError, TypeError)\<close>: a missing key
  is turned into the parameter error; the \<^verbatim>\<open>ValueError\<close> of a text that is
  not an integer is not among the caught classes and leaves the function. A
  \<^verbatim>\<open>TypeError\<close> cannot arise, the values being strings.
\<close>

definition get_width :: "params \<Rightarrow> pyexc + int" where
  "get_width pm =
     (case pm ''WIDTH'' of
        None \<Rightarrow> Inl (ParameterError ''Parameter WIDTH must be integer.'')
      | Some s \<Rightarrow> (case py_int s of None \<Rightarrow> Inl (ValueError s) | Some n \<Rightarrow> Inr n))"

definition get_height :: "params \<Rightarrow> pyexc + int" where
  "get_height pm =
     (case pm ''HEIGHT'' of
        None \<Rightarrow> Inl (ParameterError ''Parameter HEIGHT must be integer.'')
      | Some s \<Rightarrow> (case py_int s of None \<Rightarrow> Inl (ValueError s) | Some n \<Rightarrow> Inr n))"

text \<open>
  \<^verbatim>\<open>int(params['DPI'])\<close> under \<^verbatim>\<open>except TypeError\<close> (raise the parameter error)
  and \<^verbatim>\<open>except KeyError\<close> (default 96).
\<close>

definition get_dpi :: "params \<Rightarrow> pyexc + int" where
  "get_dpi pm =
     (case pm ''DPI'' of
        None \<Rightarrow> Inr 96
      | Some s \<Rightarrow> (case py_int s of None \<Rightarrow> Inl (ValueError s) | Some n \<Rightarrow> Inr n))"

definition bbox_message :: string where
  "bbox_message =
     ''Parameter BBOX must be specified in the form `min_x,min_y,max_x,max_y`.''"

text \<open>
  \<^verbatim>\<open>params.get('BBOX').split(',')\<close> unpacked into four names, each converted
  with \<^verbatim>\<open>float\<close>, under \<^verbatim>\<open>except (ValueError, AttributeError)\<close>: a missing
  parameter, any other number of fields and a field that is not a float all end
  in the same parameter error.
\<close>

definition get_bbox :: "params \<Rightarrow> pyexc + (pyfloat \<times> pyfloat \<times> pyfloat \<times> pyfloat)" where
  "get_bbox pm =
     (case pm ''BBOX'' of
        None \<Rightarrow> Inl (ParameterError bbox_message)
      | Some b \<Rightarrow>
          (case split_on CHR '','' b of
             [minx, miny, maxx, maxy] \<Rightarrow>
               (case (py_float minx, py_float miny, py_float maxx, py_float maxy) of
                  (Some x0, Some y0, Some x1, Some y1) \<Rightarrow> Inr (x0, y0, x1, y1)
                | _ \<Rightarrow> Inl (ParameterError bbox_message))
           | _ \<Rightarrow> Inl (ParameterError bbox_message)))"

text \<open>The first part of \<^verbatim>\<open>handle_requests\<close> (lines 77 to 107): six blocks in a row.\<close>

definition validate :: "params \<Rightarrow> pyexc + render_request" where
  "validate pm =
     (case get_geojson pm of Inl e \<Rightarrow> Inl e | Inr g \<Rightarrow>
     (case get_style pm of Inl e \<Rightarrow> Inl e | Inr s \<Rightarrow>
     (case get_width pm of Inl e \<Rightarrow> Inl e | Inr w \<Rightarrow>
     (case get_height pm of Inl e \<Rightarrow> Inl e | Inr ht \<Rightarrow>
     (case get_dpi pm of Inl e \<Rightarrow> Inl e | Inr d \<Rightarrow>
     (case get_bbox pm of Inl e \<Rightarrow> Inl e | Inr bb \<Rightarrow>
        Inr \<lparr>geojson_ref = g, style_ref = s, width = w, height = ht,
             dpi = d, bbox = bb\<rparr>))))))"

section \<open>The resolver\<close>

text \<open>
  \<^verbatim>\<open>os.path.join(a, b)\<close> on a POSIX system: an absolute \<open>b\<close> replaces \<open>a\<close>;
  otherwise the two are joined with one separator.
\<close>

definition path_join :: "string \<Rightarrow> string \<Rightarrow> string" where
  "path_join a b =
     (if b \<noteq> [] \<and> hd b = CHR ''/'' then b
      else if a = [] \<or> last a = CHR ''/'' then a @ b
      else a @ ''/'' @ b)"

definition not_found_message :: "string \<Rightarrow> string" where
  "not_found_message url =
     ''The file `'' @ url @ ''` could not be found locally and not be retrieved as download.''"

text \<open>
  Lines 58 to 61: only a \<^verbatim>\<open>ValueError\<close> of \<^verbatim>\<open>urlretrieve\<close> is caught and
  replaced by the parameter error; any other exception leaves the function as
  it is.
\<close>

definition download :: "env \<Rightarrow> string \<Rightarrow> string action" where
  "download en url =
     (case urlretrieve en url of
        Saved p \<Rightarrow> (Inr p, [Fetch url])
      | BadReference \<Rightarrow> (Inl (ParameterError (not_found_message url)), [Fetch url])
      | FetchFailed n d \<Rightarrow> (Inl (OtherError n d), [Fetch url]))"

text \<open>
  Lines 53 to 55: the candidate path, \<open>None\<close> when the prefix is unset or empty
  (both are false in \<^verbatim>\<open>if self.prefix_path\<close>).
\<close>

definition local_path :: "env \<Rightarrow> string \<Rightarrow> string option" where
  "local_path en url =
     (case prefix_path en of
        None \<Rightarrow> None
      | Some p \<Rightarrow> (if p = [] then None else Some (path_join p url)))"

text \<open>
  \<^verbatim>\<open>_resolve_url\<close>. The test of line 57 is
  \<^verbatim>\<open>not local_path or not os.path.exists(local_path)\<close>: the file system is asked
  only for a candidate that is there and not the empty string.
\<close>

definition resolve_url :: "env \<Rightarrow> string \<Rightarrow> string action" where
  "resolve_url en url =
     and_then (emit (Resolve url)) (\<lambda>_.
       (case local_path en url of
          None \<Rightarrow> download en url
        | Some lp \<Rightarrow>
            (if lp = [] then download en url
             else and_then (emit (Exists lp)) (\<lambda>_.
                    if path_exists en lp then done_with lp else download en url))))"

section \<open>The pipeline and the dispatcher\<close>

text \<open>Lines 112 to 117: the style of each of the three layers.\<close>

definition resolve_styles :: "env \<Rightarrow> string \<Rightarrow> (string \<times> string \<times> string) action" where
  "resolve_styles en style =
     (if contains ''$type'' style then
        and_then (resolve_url en (py_replace ''$type'' ''polygons'' style)) (\<lambda>polygon_style.
        and_then (resolve_url en (py_replace ''$type'' ''lines'' style)) (\<lambda>line_style.
        and_then (resolve_url en (py_replace ''$type'' ''points'' style)) (\<lambda>point_style.
        done_with (polygon_style, line_style, point_style))))
      else
        and_then (resolve_url en style) (\<lambda>p. done_with (p, p, p)))"

text \<open>Lines 119 to 125: a layer per geometry type, each with its style loaded.\<close>

definition styled_layer :: "string \<Rightarrow> string \<Rightarrow> string \<Rightarrow> string \<Rightarrow> unit action" where
  "styled_layer file_name geometry name style =
     and_then (emit (NewLayer (file_name @ ''|geometrytype='' @ geometry) name ''ogr''))
       (\<lambda>_. emit (LoadStyle name style))"

text \<open>Lines 127 to 147: the map settings, the render job and the PNG.\<close>

definition render_image :: "env \<Rightarrow> map_settings \<Rightarrow> string action" where
  "render_image en st =
     (case render en st of
        RenderFailed n d \<Rightarrow> (Inl (OtherError n d), [Render st])
      | Image png \<Rightarrow> (Inr png, [Render st]))"

definition settings_of :: "render_request \<Rightarrow> map_settings" where
  "settings_of rq =
     \<lparr>output_width = width rq, output_height = height rq, output_dpi = dpi rq,
      extent = bbox rq, layers = [''polygons'', ''lines'', ''points'']\<rparr>"

text \<open>Lines 109 to 150: what \<^verbatim>\<open>handle_requests\<close> does with validated parameters.\<close>

definition pipeline :: "env \<Rightarrow> render_request \<Rightarrow> unit action" where
  "pipeline en rq =
     and_then (resolve_url en (geojson_ref rq)) (\<lambda>geojson_file_name.
     and_then (resolve_styles en (style_ref rq)) (\<lambda>(polygon_style, line_style, point_style).
     and_then (styled_layer geojson_file_name ''Polygon'' ''polygons'' polygon_style) (\<lambda>_.
     and_then (styled_layer geojson_file_name ''Line'' ''lines'' line_style) (\<lambda>_.
     and_then (styled_layer geojson_file_name ''Point'' ''points'' point_style) (\<lambda>_.
     and_then (render_image en (settings_of rq)) (\<lambda>image_data.
     and_then (emit (SetHeader ''Content-type'' ''image/png'')) (\<lambda>_.
     emit (AppendBody image_data))))))))"

definition handle_requests :: "env \<Rightarrow> params \<Rightarrow> unit action" where
  "handle_requests en pm =
     (case validate pm of
        Inl e \<Rightarrow> raise_exc e
      | Inr rq \<Rightarrow> pipeline en rq)"

definition log_prefix :: string where
  "log_prefix = ''RenderGeojson.responseComplete :: ''"

text \<open>
  \<^verbatim>\<open>responseComplete\<close>: the events of one call. The type of every exception is
  logged and the content type set before the two kinds of exception are told
  apart.
\<close>

definition claimed :: "params \<Rightarrow> bool" where
  "claimed pm =
     (py_upper (case pm ''SERVICE'' of None \<Rightarrow> [] | Some s \<Rightarrow> s) = ''RENDERGEOJSON'')"

definition on_exception :: "env \<Rightarrow> pyexc \<Rightarrow> event list" where
  "on_exception en e =
     [Log (log_prefix @ type_name e), SetHeader ''Content-type'' ''text/plain''] @
     (case e of
        ParameterError m \<Rightarrow> [AppendBody m]
      | _ \<Rightarrow> [Log (log_prefix @ '' '' @ format_exc en e),
               AppendBody ''Unhandled error'',
               AppendBody (format_exc en e)])"

definition responseComplete :: "env \<Rightarrow> params \<Rightarrow> event list" where
  "responseComplete en pm =
     (if \<not> claimed pm then []
      else
        (case handle_requests en pm of
           (Inr u, t) \<Rightarrow> Clear # t
         | (Inl e, t) \<Rightarrow> Clear # t @ on_exception en e))"

text \<open>The state of the response after a sequence of events.\<close>

record response =
  headers :: "(string \<times> string) list"
  body :: string

fun apply_event :: "response \<Rightarrow> event \<Rightarrow> response" where
  "apply_event r Clear = \<lparr>headers = [], body = []\<rparr>"
| "apply_event r (SetHeader k v) =
     r\<lparr>headers := (k, v) # filter (\<lambda>kv. fst kv \<noteq> k) (headers r)\<rparr>"
| "apply_event r (AppendBody b) = r\<lparr>body := body r @ b\<rparr>"
| "apply_event r ev = r"

definition response_after :: "response \<Rightarrow> event list \<Rightarrow> response" where
  "response_after r evs = foldl apply_event r evs"

text \<open>Views of a trace: the log, the resolver calls, the downloads, and so on.\<close>

definition log_messages :: "event list \<Rightarrow> string list" where
  "log_messages evs = concat (map (\<lambda>ev. case ev of Log m \<Rightarrow> [m] | _ \<Rightarrow> []) evs)"



definition fetches :: "event list \<Rightarrow> string list" where
  "fetches evs = concat (map (\<lambda>ev. case ev of Fetch u \<Rightarrow> [u] | _ \<Rightarrow> []) evs)"

definition renders :: "event list \<Rightarrow> map_settings list" where
  "renders evs = concat (map (\<lambda>ev. case ev of Render s \<Rightarrow> [s] | _ \<Rightarrow> []) evs)"

definition header_sets :: "event list \<Rightarrow> (string \<times> string) list" where
  "header_sets evs = concat (map (\<lambda>ev. case ev of SetHeader k v \<Rightarrow> [(k, v)] | _ \<Rightarrow> []) evs)"

text \<open>The events that are neither an operation on the request nor a log message.\<close>

fun internal :: "event \<Rightarrow> bool" where
  "internal Clear = False"
| "internal (SetHeader k v) = False"
| "internal (AppendBody b) = False"
| "internal (Log m) = False"
| "internal ev = True"

section \<open>Validation in the words of the specification\<close>

text \<open>
  Section 4.1 of the specification, taken by its words and not from the code:
  the parameters in the order it gives, the condition under which each one
  fails, the message of each one, and the error of the first parameter, in
  that order, that fails.
\<close>

datatype pname = GEOJSON | STYLE | WIDTH | HEIGHT | DPI | BBOX

definition validation_order :: "pname list" where
  "validation_order = [GEOJSON, STYLE, WIDTH, HEIGHT, DPI, BBOX]"

definition not_integer :: "string option \<Rightarrow> bool" where
  "not_integer v = (case v of None \<Rightarrow> False | Some s \<Rightarrow> py_int s = None)"

fun spec_fails :: "pname \<Rightarrow> params \<Rightarrow> bool" where
  "spec_fails GEOJSON pm = (pm ''GEOJSON'' = None)"
| "spec_fails STYLE pm = (pm ''STYLE'' = None)"
| "spec_fails WIDTH pm = (pm ''WIDTH'' = None \<or> not_integer (pm ''WIDTH''))"
| "spec_fails HEIGHT pm = (pm ''HEIGHT'' = None \<or> not_integer (pm ''HEIGHT''))"
| "spec_fails DPI pm = not_integer (pm ''DPI'')"
| "spec_fails BBOX pm =
     (case pm ''BBOX'' of
        None \<Rightarrow> True
      | Some b \<Rightarrow> length (split_on CHR '','' b) \<noteq> 4
                 \<or> list_ex (\<lambda>c. py_float c = None) (split_on CHR '','' b))"

fun spec_message :: "pname \<Rightarrow> string" where
  "spec_message GEOJSON = ''Parameter GEOJSON must be set.''"
| "spec_message STYLE = ''Parameter STYLE must be set.''"
| "spec_message WIDTH = ''Parameter WIDTH must be integer.''"
| "spec_message HEIGHT = ''Parameter HEIGHT must be integer.''"
| "spec_message DPI = ''Parameter DPI must be integer.''"
| "spec_message BBOX =
     ''Parameter BBOX must be specified in the form `min_x,min_y,max_x,max_y`.''"

definition spec_first_error :: "params \<Rightarrow> pyexc option" where
  "spec_first_error pm =
     (case filter (\<lambda>p. spec_fails p pm) validation_order of
        [] \<Rightarrow> None
      | p # ps \<Rightarrow> Some (ParameterError (spec_message p)))"

section \<open>Sample environments and requests\<close>

text \<open>
  Four environments to run the model in: one whose references are not URLs
  and where nothing is found locally, one whose downloads fail on the network,
  one with a prefix directory where every download succeeds, and one with a
  prefix directory that holds the dataset only and whose references are not
  URLs.
\<close>

definition sample_format_exc :: "pyexc \<Rightarrow> string" where
  "sample_format_exc e = ''Traceback (most recent call last): '' @ type_name e"

definition offline_env :: env where
  "offline_env =
     \<lparr>prefix_path = None, path_exists = (\<lambda>p. False), urlretrieve = (\<lambda>u. BadReference),
      render = (\<lambda>st. Image ''PNG''), format_exc = sample_format_exc\<rparr>"

definition unreachable_env :: env where
  "unreachable_env =
     \<lparr>prefix_path = None, path_exists = (\<lambda>p. False),
      urlretrieve = (\<lambda>u. FetchFailed ''URLError'' ''Name or service not known''),
      render = (\<lambda>st. Image ''PNG''), format_exc = sample_format_exc\<rparr>"

definition mirror_env :: env where
  "mirror_env =
     \<lparr>prefix_path = Some ''/data'',
      path_exists = (\<lambda>p. p = ''/data/map.json'' \<or> p = ''/etc/hostname''),
      urlretrieve = (\<lambda>u. Saved (''/tmp/'' @ u)),
      render = (\<lambda>st. Image ''PNG''), format_exc = sample_format_exc\<rparr>"


definition sample_request :: params where
  "sample_request =
     [''SERVICE'' \<mapsto> ''RenderGeojson'', ''GEOJSON'' \<mapsto> ''map.json'',
      ''STYLE'' \<mapsto> ''style_$type.qml'', ''WIDTH'' \<mapsto> ''100'', ''HEIGHT'' \<mapsto> ''100'',
      ''BBOX'' \<mapsto> ''1,2,3,4'']"

section \<open>Shape of the traces\<close>

lemma and_then_cases:
  assumes "and_then m f = (r, t)"
  shows "(\<exists>e. m = (Inl e, t) \<and> r = Inl e) \<or>
         (\<exists>x t1 t2. m = (Inr x, t1) \<and> f x = (r, t2) \<and> t = t1 @ t2)"
  using assms by (auto simp: and_then_def split: prod.splits sum.splits)

lemma download_events: "download en u = (r, t) \<Longrightarrow> t = [Fetch u]"
  by (auto simp: download_def split: fetched.splits)

lemma resolve_url_internal: "resolve_url en u = (r, t) \<Longrightarrow> list_all internal t"
  by (auto simp: resolve_url_def and_then_def emit_def done_with_def
      split: prod.splits sum.splits option.splits if_splits dest!: download_events)

lemma resolve_styles_internal: "resolve_styles en s = (r, t) \<Longrightarrow> list_all internal t"
  by (auto simp: resolve_styles_def done_with_def
      split: if_splits dest!: and_then_cases resolve_url_internal)

lemma pipeline_fail: "pipeline en rq = (Inl e, t) \<Longrightarrow> list_all internal t"
  by (auto simp: pipeline_def styled_layer_def render_image_def emit_def
      split: rendered.splits dest!: and_then_cases resolve_url_internal resolve_styles_internal)

lemma pipeline_ok:
  "pipeline en rq = (Inr u, t) \<Longrightarrow>
   \<exists>t0 png. t = t0 @ [SetHeader ''Content-type'' ''image/png'', AppendBody png]
            \<and> list_all internal t0"
  by (auto simp: pipeline_def styled_layer_def render_image_def emit_def
      split: rendered.splits dest!: and_then_cases resolve_url_internal resolve_styles_internal)

lemma handle_requests_fail: "handle_requests en pm = (Inl e, t) \<Longrightarrow> list_all internal t"
  by (auto simp: handle_requests_def raise_exc_def split: sum.splits dest: pipeline_fail)

lemma handle_requests_ok:
  "handle_requests en pm = (Inr u, t) \<Longrightarrow>
   \<exists>t0 png. t = t0 @ [SetHeader ''Content-type'' ''image/png'', AppendBody png]
            \<and> list_all internal t0"
  by (auto simp: handle_requests_def raise_exc_def split: sum.splits dest: pipeline_ok)

lemma internal_views:
  "list_all internal t \<Longrightarrow> log_messages t = [] \<and> header_sets t = [] \<and> Clear \<notin> set t"
proof (induction t)
  case Nil
  show ?case by (simp add: log_messages_def header_sets_def)
next
  case (Cons ev t)
  then show ?case by (cases ev) (auto simp: log_messages_def header_sets_def)
qed

lemma response_after_Clear:
  "response_after r (Clear # t) = response_after \<lparr>headers = [], body = []\<rparr> t"
  by (simp add: response_after_def)


lemma header_sets_append: "header_sets (a @ b) = header_sets a @ header_sets b"
  by (simp add: header_sets_def)

section \<open>Validation against the specification\<close>

lemma get_bbox_spec:
  "get_bbox pm = Inl e \<longleftrightarrow> e = ParameterError (spec_message BBOX) \<and> spec_fails BBOX pm"
  by (auto simp: get_bbox_def bbox_message_def list_ex_iff split: option.splits list.splits)

text \<open>
  Where no conversion of WIDTH, HEIGHT or DPI raises, the validation of the
  code is the one the specification describes: it fails exactly with the error
  of the first failing parameter in the order GEOJSON, STYLE, WIDTH, HEIGHT,
  DPI, BBOX, and \<^verbatim>\<open>handle_requests\<close> raises it before any event.
\<close>

lemma validation_agrees_with_specification:
  assumes "\<not> not_integer (pm ''WIDTH'')" and "\<not> not_integer (pm ''HEIGHT'')"
    and "\<not> not_integer (pm ''DPI'')"
  shows "(validate pm = Inl e \<longleftrightarrow> spec_first_error pm = Some e) \<and>
         (validate pm = Inl e \<longrightarrow> handle_requests en pm = (Inl e, []))"
proof -
  have b: "\<And>x. get_bbox pm = Inl x \<longleftrightarrow>
             x = ParameterError (spec_message BBOX) \<and> spec_fails BBOX pm"
    by (rule get_bbox_spec)
  have "validate pm = Inl e \<longleftrightarrow> spec_first_error pm = Some e"
    using assms b [of e]
    by (cases "get_bbox pm")
       (auto simp: validate_def spec_first_error_def validation_order_def not_integer_def
          get_geojson_def get_style_def get_width_def get_height_def get_dpi_def
          split: option.splits)
  then show ?thesis
    by (auto simp: handle_requests_def raise_exc_def)
qed

text \<open>
  C3, at the failing input. GEOJSON and STYLE are present, WIDTH is \<^verbatim>\<open>abc\<close>,
  HEIGHT and BBOX are missing. The first failing parameter in the order of the
  specification is WIDTH, with the error \<^verbatim>\<open>Parameter WIDTH must be integer.\<close>;
  the code raises the \<^verbatim>\<open>ValueError\<close> of the conversion instead, before any
  event.
\<close>

theorem width_text_first_error:
  "spec_first_error
     [''SERVICE'' \<mapsto> ''RENDERGEOJSON'', ''GEOJSON'' \<mapsto> ''map.json'',
      ''STYLE'' \<mapsto> ''style.qml'', ''WIDTH'' \<mapsto> ''abc''] =
     Some (ParameterError ''Parameter WIDTH must be integer.'') \<and>
   validate
     [''SERVICE'' \<mapsto> ''RENDERGEOJSON'', ''GEOJSON'' \<mapsto> ''map.json'',
      ''STYLE'' \<mapsto> ''style.qml'', ''WIDTH'' \<mapsto> ''abc''] = Inl (ValueError ''abc'') \<and>
   handle_requests en
     [''SERVICE'' \<mapsto> ''RENDERGEOJSON'', ''GEOJSON'' \<mapsto> ''map.json'',
      ''STYLE'' \<mapsto> ''style.qml'', ''WIDTH'' \<mapsto> ''abc''] = (Inl (ValueError ''abc''), [])"
proof -
  have n: "py_int ''abc'' = None" by code_simp
  show ?thesis
    by (simp add: spec_first_error_def validation_order_def not_integer_def n validate_def
        get_geojson_def get_style_def get_width_def handle_requests_def raise_exc_def)
qed

section \<open>The sample request\<close>

lemma sample_numbers:
  "py_int ''100'' = Some 100"
  "split_on CHR '','' ''1,2,3,4'' = [''1'', ''2'', ''3'', ''4'']"
  "py_float ''1'' = Some (Finite 1)" "py_float ''2'' = Some (Finite 2)"
  "py_float ''3'' = Some (Finite 3)" "py_float ''4'' = Some (Finite 4)"
  by code_simp+


lemma sample_request_valid:
  "validate sample_request =
     Inr \<lparr>geojson_ref = ''map.json'', style_ref = ''style_$type.qml'', width = 100,
          height = 100, dpi = 96, bbox = (Finite 1, Finite 2, Finite 3, Finite 4)\<rparr>"
  by (simp add: validate_def sample_request_def get_geojson_def get_style_def get_width_def
      get_height_def get_dpi_def get_bbox_def sample_numbers)

lemma sample_request_claimed: "claimed sample_request"
  by (simp add: claimed_def sample_request_def) code_simp



section \<open>The bounding box\<close>

lemma get_bbox_fails_iff:
  "get_bbox pm = Inl e \<longleftrightarrow>
     e = ParameterError bbox_message \<and>
     (pm ''BBOX'' = None \<or>
      (\<exists>b. pm ''BBOX'' = Some b \<and>
           (length (split_on CHR '','' b) \<noteq> 4 \<or>
            (\<exists>c \<in> set (split_on CHR '','' b). py_float c = None))))"
  by (auto simp: get_bbox_def split: option.splits list.splits)

text \<open>
  C4, as stated, fails: BBOX is checked last, so a parameter map with a
  malformed BBOX and no GEOJSON fails with the message of GEOJSON.
\<close>

theorem bbox_after_geojson_counterexample:
  "validate [''BBOX'' \<mapsto> ''1,2,3''] = Inl (ParameterError ''Parameter GEOJSON must be set.'') \<and>
   validate [''BBOX'' \<mapsto> ''1,2,3''] \<noteq>
     Inl (ParameterError
       ''Parameter BBOX must be specified in the form `min_x,min_y,max_x,max_y`.'')"
  by (simp add: validate_def get_geojson_def)

text \<open>
  C4, amended. For every parameter map in which GEOJSON and STYLE are present,
  WIDTH and HEIGHT are present and parse as integers and DPI is absent or
  parses as an integer: validation fails with the message
  \<^verbatim>\<open>Parameter BBOX must be specified in the form `min_x,min_y,max_x,max_y`.\<close>
  exactly when BBOX is absent, or does not split at commas into four fields,
  or has a field that \<^verbatim>\<open>float\<close> rejects; and for \<^verbatim>\<open>BBOX=1,2,3,4\<close> validation
  succeeds with the extent (1, 2, 3, 4).
\<close>

theorem bbox_validation:
  assumes "pm ''GEOJSON'' = Some g" and "pm ''STYLE'' = Some s"
    and "pm ''WIDTH'' = Some ws" and "py_int ws = Some w"
    and "pm ''HEIGHT'' = Some hs" and "py_int hs = Some ht"
    and "(pm ''DPI'' = None \<and> d = 96) \<or> (\<exists>ds. pm ''DPI'' = Some ds \<and> py_int ds = Some d)"
  shows "(validate pm =
            Inl (ParameterError
              ''Parameter BBOX must be specified in the form `min_x,min_y,max_x,max_y`.'')
          \<longleftrightarrow>
            (pm ''BBOX'' = None \<or>
             (\<exists>b. pm ''BBOX'' = Some b \<and>
                  (length (split_on CHR '','' b) \<noteq> 4 \<or>
                   (\<exists>c \<in> set (split_on CHR '','' b). py_float c = None)))))
         \<and>
         (pm ''BBOX'' = Some ''1,2,3,4'' \<longrightarrow>
            validate pm =
              Inr \<lparr>geojson_ref = g, style_ref = s, width = w, height = ht, dpi = d,
                   bbox = (Finite 1, Finite 2, Finite 3, Finite 4)\<rparr>)"
proof -
  have e: "get_geojson pm = Inr g" "get_style pm = Inr s" "get_width pm = Inr w"
    "get_height pm = Inr ht" "get_dpi pm = Inr d"
    using assms
    by (auto simp: get_geojson_def get_style_def get_width_def get_height_def get_dpi_def)
  have v: "validate pm =
      (case get_bbox pm of Inl e \<Rightarrow> Inl e
       | Inr bb \<Rightarrow> Inr \<lparr>geojson_ref = g, style_ref = s, width = w, height = ht,
                         dpi = d, bbox = bb\<rparr>)"
    using e by (simp add: validate_def)
  have a: "validate pm = Inl (ParameterError bbox_message) \<longleftrightarrow>
           get_bbox pm = Inl (ParameterError bbox_message)"
    by (simp add: v split: sum.splits)
  have b: "pm ''BBOX'' = Some ''1,2,3,4'' \<Longrightarrow>
           get_bbox pm = Inr (Finite 1, Finite 2, Finite 3, Finite 4)"
    by (simp add: get_bbox_def sample_numbers)
  show ?thesis
    using a b get_bbox_fails_iff [of pm "ParameterError bbox_message"]
    by (auto simp: v bbox_message_def)
qed

theorem bbox_validation_witness:
  "validate (sample_request(''BBOX'' \<mapsto> ''1,2,3'')) =
     Inl (ParameterError
       ''Parameter BBOX must be specified in the form `min_x,min_y,max_x,max_y`.'') \<and>
   validate sample_request =
     Inr \<lparr>geojson_ref = ''map.json'', style_ref = ''style_$type.qml'', width = 100,
          height = 100, dpi = 96, bbox = (Finite 1, Finite 2, Finite 3, Finite 4)\<rparr>"
proof -
  have s3: "split_on CHR '','' ''1,2,3'' = [''1'', ''2'', ''3'']" by code_simp
  have p: "sample_request ''GEOJSON'' = Some ''map.json''"
    "sample_request ''STYLE'' = Some ''style_$type.qml''"
    "sample_request ''WIDTH'' = Some ''100''" "sample_request ''HEIGHT'' = Some ''100''"
    "sample_request ''DPI'' = None" "sample_request ''BBOX'' = Some ''1,2,3,4''"
    by (simp_all add: sample_request_def)
  have r1: "validate (sample_request(''BBOX'' \<mapsto> ''1,2,3'')) =
     Inl (ParameterError
       ''Parameter BBOX must be specified in the form `min_x,min_y,max_x,max_y`.'')"
    using bbox_validation [of "sample_request(''BBOX'' \<mapsto> ''1,2,3'')" "''map.json''"
        "''style_$type.qml''" "''100''" 100 "''100''" 100 96]
    by (simp add: p sample_numbers s3)
  have r2: "validate sample_request =
     Inr \<lparr>geojson_ref = ''map.json'', style_ref = ''style_$type.qml'', width = 100,
          height = 100, dpi = 96, bbox = (Finite 1, Finite 2, Finite 3, Finite 4)\<rparr>"
    using bbox_validation [of sample_request "''map.json''" "''style_$type.qml''" "''100''"
        100 "''100''" 100 96]
    by (simp add: p sample_numbers)
  from r1 r2 show ?thesis by (rule conjI)
qed

section \<open>Resolver: local hit and download\<close>

lemma path_join_nonempty: "p \<noteq> [] \<Longrightarrow> path_join p u \<noteq> []"
  by (auto simp: path_join_def)

lemma fetches_download: "fetches (snd (download en u)) = [u]"
  by (simp add: download_def fetches_def split: fetched.splits)

lemma resolve_url_local:
  assumes "prefix_path en = Some p" and "p \<noteq> []" and "path_exists en (path_join p u)"
  shows "resolve_url en u = (Inr (path_join p u), [Resolve u, Exists (path_join p u)])"
  using assms path_join_nonempty [of p u]
  by (simp add: resolve_url_def local_path_def and_then_def emit_def done_with_def)

lemma resolve_url_remote:
  assumes "\<not> (\<exists>p. prefix_path en = Some p \<and> p \<noteq> [] \<and> path_exists en (path_join p u))"
  shows "fst (resolve_url en u) = fst (download en u)"
    and "fetches (snd (resolve_url en u)) = [u]"
  using assms fetches_download [of en u]
  by (auto simp: resolve_url_def local_path_def and_then_def emit_def done_with_def fetches_def
      split: option.splits prod.splits sum.splits)

text \<open>
  C5, as stated, fails: a download that fails with an exception other than
  \<^verbatim>\<open>ValueError\<close> (here the \<^verbatim>\<open>URLError\<close> of an unreachable host) leaves
  \<^verbatim>\<open>_resolve_url\<close> unchanged, not as the error with the message
  \<^verbatim>\<open>The file ... could not be found locally and not be retrieved as download.\<close>
\<close>

theorem resolve_url_fetch_error_counterexample:
  "resolve_url unreachable_env ''http://maps.example/map.json'' =
     (Inl (OtherError ''URLError'' ''Name or service not known''),
      [Resolve ''http://maps.example/map.json'', Fetch ''http://maps.example/map.json''])
   \<and> OtherError ''URLError'' ''Name or service not known'' \<noteq>
       ParameterError ''The file `http://maps.example/map.json` could not be found locally and not be retrieved as download.''"
  by (simp add: resolve_url_def local_path_def unreachable_env_def download_def and_then_def
      emit_def)

text \<open>
  C5, amended. If a non-empty prefix is configured and the joined path exists,
  the resolver returns the joined path and downloads nothing. Otherwise it
  makes exactly one download attempt for the reference: it returns the path of
  the saved file; if the download raises \<^verbatim>\<open>ValueError\<close> it fails with the
  message \<^verbatim>\<open>The file `{ref}` could not be found locally and not be retrieved as download.\<close>;
  if the download raises anything else, that exception is raised unchanged.
\<close>

theorem resolve_url_outcomes:
  "(\<forall>p. prefix_path en = Some p \<and> p \<noteq> [] \<and> path_exists en (path_join p url) \<longrightarrow>
        resolve_url en url = (Inr (path_join p url), [Resolve url, Exists (path_join p url)]) \<and>
        fetches (snd (resolve_url en url)) = [])
   \<and>
   (\<not> (\<exists>p. prefix_path en = Some p \<and> p \<noteq> [] \<and> path_exists en (path_join p url)) \<longrightarrow>
        fetches (snd (resolve_url en url)) = [url] \<and>
        fst (resolve_url en url) =
          (case urlretrieve en url of
             Saved f \<Rightarrow> Inr f
           | BadReference \<Rightarrow>
               Inl (ParameterError (''The file `'' @ url @
                  ''` could not be found locally and not be retrieved as download.''))
           | FetchFailed n d \<Rightarrow> Inl (OtherError n d)))"
proof -
  have d: "fst (download en url) =
          (case urlretrieve en url of
             Saved f \<Rightarrow> Inr f
           | BadReference \<Rightarrow>
               Inl (ParameterError (''The file `'' @ url @
                  ''` could not be found locally and not be retrieved as download.''))
           | FetchFailed n d \<Rightarrow> Inl (OtherError n d))"
    by (simp add: download_def not_found_message_def split: fetched.splits)
  show ?thesis
    using resolve_url_remote [of en url] d
    by (auto simp: resolve_url_local fetches_def)
qed

theorem resolve_url_outcomes_witness:
  "resolve_url mirror_env ''map.json'' =
     (Inr ''/data/map.json'', [Resolve ''map.json'', Exists ''/data/map.json'']) \<and>
   fetches (snd (resolve_url mirror_env ''style.qml'')) = [''style.qml''] \<and>
   fst (resolve_url mirror_env ''style.qml'') = Inr ''/tmp/style.qml'' \<and>
   fst (resolve_url offline_env ''style.qml'') =
     Inl (ParameterError ''The file `style.qml` could not be found locally and not be retrieved as download.'') \<and>
   fst (resolve_url unreachable_env ''style.qml'') =
     Inl (OtherError ''URLError'' ''Name or service not known'')"
proof -
  have j: "path_join ''/data'' ''map.json'' = ''/data/map.json''"
    "path_join ''/data'' ''style.qml'' = ''/data/style.qml''"
    by (simp_all add: path_join_def)
  show ?thesis
    using resolve_url_outcomes [of mirror_env "''map.json''"]
      resolve_url_outcomes [of mirror_env "''style.qml''"]
      resolve_url_outcomes [of offline_env "''style.qml''"]
      resolve_url_outcomes [of unreachable_env "''style.qml''"]
    by (simp add: mirror_env_def offline_env_def unreachable_env_def j)
qed

text \<open>
  C10. With a prefix configured, an absolute reference is joined to itself:
  the prefix is dropped, and an existing absolute path is returned as the
  local result, wherever it lies.
\<close>

theorem absolute_reference_escapes_prefix:
  assumes "prefix_path en = Some p" and "p \<noteq> []" and "path_exists en (CHR ''/'' # rest)"
  shows "path_join p (CHR ''/'' # rest) = CHR ''/'' # rest \<and>
         resolve_url en (CHR ''/'' # rest) =
           (Inr (CHR ''/'' # rest), [Resolve (CHR ''/'' # rest), Exists (CHR ''/'' # rest)])"
proof -
  have j: "path_join p (CHR ''/'' # rest) = CHR ''/'' # rest"
    by (simp add: path_join_def)
  show ?thesis using resolve_url_local [OF assms(1,2), of "CHR ''/'' # rest"] assms(3)
    by (simp add: j)
qed

theorem absolute_reference_escapes_prefix_witness:
  "prefix_path mirror_env = Some ''/data'' \<and>
   \<not> prefix ''/data'' ''/etc/hostname'' \<and>
   resolve_url mirror_env ''/etc/hostname'' =
     (Inr ''/etc/hostname'', [Resolve ''/etc/hostname'', Exists ''/etc/hostname''])"
proof -
  have a: "prefix_path mirror_env = Some ''/data''" by (simp add: mirror_env_def)
  have b: "path_exists mirror_env (CHR ''/'' # ''etc/hostname'')" by (simp add: mirror_env_def)
  have c: "''/data'' \<noteq> []" by simp
  from absolute_reference_escapes_prefix [OF a c b] a show ?thesis by simp
qed

section \<open>Styles of the three layers\<close>




















section \<open>Responses of the dispatcher\<close>

lemma resolve_url_fail:
  "resolve_url en u = (Inl e, t) \<Longrightarrow> t \<noteq> [] \<and> last t = Fetch u \<and> fst (download en u) = Inl e"
  by (auto simp: resolve_url_def and_then_def emit_def done_with_def
      split: prod.splits sum.splits option.splits if_splits dest: download_events)

lemma resolve_styles_fail:
  "resolve_styles en s = (Inl e, t) \<Longrightarrow>
   t \<noteq> [] \<and> (\<exists>u. last t = Fetch u \<and> fst (download en u) = Inl e)"
  by (auto simp: resolve_styles_def done_with_def
      split: if_splits dest!: and_then_cases dest: resolve_url_fail)

lemma pipeline_fail_last:
  "pipeline en rq = (Inl e, t) \<Longrightarrow>
   t \<noteq> [] \<and> ((\<exists>u. last t = Fetch u \<and> fst (download en u) = Inl e) \<or> (\<exists>st. last t = Render st))"
  by (auto simp: pipeline_def styled_layer_def render_image_def emit_def
      split: rendered.splits dest!: and_then_cases dest: resolve_url_fail resolve_styles_fail)

lemma failed_download:
  assumes "handle_requests en pm = (Inl e, t @ [Fetch u])"
  shows "fst (download en u) = Inl e"
proof -
  obtain rq where "pipeline en rq = (Inl e, t @ [Fetch u])"
    using assms by (auto simp: handle_requests_def raise_exc_def split: sum.splits)
  from pipeline_fail_last [OF this] show ?thesis by auto
qed

lemma offline_sample_run:
  "handle_requests offline_env sample_request =
     (Inl (ParameterError
        ''The file `map.json` could not be found locally and not be retrieved as download.''),
      [Resolve ''map.json'', Fetch ''map.json''])"
  by (simp add: handle_requests_def sample_request_valid pipeline_def resolve_url_def
      local_path_def offline_env_def download_def not_found_message_def and_then_def emit_def)

lemma unreachable_sample_run:
  "handle_requests unreachable_env sample_request =
     (Inl (OtherError ''URLError'' ''Name or service not known''),
      [Resolve ''map.json'', Fetch ''map.json''])"
  by (simp add: handle_requests_def sample_request_valid pipeline_def resolve_url_def
      local_path_def unreachable_env_def download_def and_then_def emit_def)

lemma sample_envs:
  "urlretrieve offline_env u = BadReference"
  "urlretrieve unreachable_env u = FetchFailed ''URLError'' ''Name or service not known''"
  "format_exc offline_env = sample_format_exc"
  "format_exc unreachable_env = sample_format_exc"
  by (simp_all add: offline_env_def unreachable_env_def)


lemma header_sets_on_exception:
  "header_sets (on_exception en e) = [(''Content-type'', ''text/plain'')]"
  by (cases e) (simp_all add: on_exception_def header_sets_def)

lemma no_Clear_on_exception: "Clear \<notin> set (on_exception en e)"
  by (cases e) (simp_all add: on_exception_def)

lemma body_on_exception: "\<exists>b. AppendBody b \<in> set (on_exception en e)"
  by (cases e) (auto simp: on_exception_def)

lemma claimed_run:
  assumes "claimed pm"
  shows "(\<exists>rest. responseComplete en pm = Clear # snd (handle_requests en pm) @ rest) \<and>
         Clear \<notin> set (tl (responseComplete en pm)) \<and>
         length (header_sets (responseComplete en pm)) = 1 \<and>
         (\<exists>b. AppendBody b \<in> set (responseComplete en pm))"
proof (cases "handle_requests en pm")
  case (Pair r t)
  show ?thesis
  proof (cases r)
    case (Inl e)
    with Pair have "list_all internal t" by (simp add: handle_requests_fail)
    then have v: "header_sets t = []" "Clear \<notin> set t" by (simp_all add: internal_views)
    have h: "header_sets (Clear # t @ on_exception en e) =
               header_sets t @ header_sets (on_exception en e)"
      using header_sets_append [of "[Clear]" "t @ on_exception en e"]
      by (simp add: header_sets_append) (simp add: header_sets_def)
    have r: "responseComplete en pm = Clear # t @ on_exception en e"
      using Pair Inl assms by (simp add: responseComplete_def)
    show ?thesis
      using body_on_exception [of en e]
      by (auto simp: r h v header_sets_on_exception no_Clear_on_exception Pair)
  next
    case (Inr u)
    with Pair obtain t0 png where
      t: "t = t0 @ [SetHeader ''Content-type'' ''image/png'', AppendBody png]"
      and i: "list_all internal t0"
      using handle_requests_ok by blast
    from i have v: "header_sets t0 = []" "Clear \<notin> set t0" by (simp_all add: internal_views)
    have h: "header_sets (Clear # t0 @ [SetHeader ''Content-type'' ''image/png'', AppendBody png])
               = header_sets t0 @ [(''Content-type'', ''image/png'')]"
      using header_sets_append [of "[Clear]"
          "t0 @ [SetHeader ''Content-type'' ''image/png'', AppendBody png]"]
      by (simp add: header_sets_append) (simp add: header_sets_def)
    have r: "responseComplete en pm = Clear # t"
      using Pair Inr assms by (simp add: responseComplete_def)
    show ?thesis
      by (auto simp: r h v Pair t)
  qed
qed

lemma not_integers: "py_int ''abc'' = None" "py_int ''x'' = None" "py_int ''10'' = Some 10"
  by code_simp+

lemma unhandled_value_error:
  assumes "claimed pm" and "validate pm = Inl (ValueError s)"
  shows "responseComplete en pm =
     [Clear, Log ''RenderGeojson.responseComplete :: ValueError'',
      SetHeader ''Content-type'' ''text/plain'',
      Log (''RenderGeojson.responseComplete ::  '' @ format_exc en (ValueError s)),
      AppendBody ''Unhandled error'', AppendBody (format_exc en (ValueError s))]"
  using assms
  by (simp add: responseComplete_def handle_requests_def raise_exc_def on_exception_def
      log_prefix_def)

lemma sample_request_claimed_upd:
  "k \<noteq> ''SERVICE'' \<Longrightarrow> claimed (sample_request(k \<mapsto> v))"
  using sample_request_claimed by (simp add: claimed_def)

text \<open>
  C7, as stated, fails: when the download is rejected with a \<^verbatim>\<open>ValueError\<close>
  the resolver raises a \<^verbatim>\<open>ParameterError\<close>, and the client receives the bare
  message, without the marker \<^verbatim>\<open>Unhandled error\<close>.
\<close>

theorem resolver_failure_bare_message_counterexample:
  "urlretrieve offline_env ''map.json'' = BadReference \<and>
   body (response_after \<lparr>headers = [], body = []\<rparr> (responseComplete offline_env sample_request)) =
     ''The file `map.json` could not be found locally and not be retrieved as download.'' \<and>
   AppendBody ''Unhandled error'' \<notin> set (responseComplete offline_env sample_request)"
  by (simp add: responseComplete_def sample_request_claimed offline_sample_run on_exception_def
      response_after_def log_prefix_def)
     (simp add: offline_env_def)

text \<open>
  C7, amended. Take a claimed request whose handling fails right after a
  download attempt for a reference \<open>u\<close> (the resolver could not obtain the
  resource). If the download raised \<^verbatim>\<open>ValueError\<close>, the response is in the
  validation-error form: plain text, the body being exactly the message
  \<^verbatim>\<open>The file `u` could not be found locally and not be retrieved as download.\<close>
  If the download raised any other exception, the response is in the
  unexpected-error form: plain text, the marker \<^verbatim>\<open>Unhandled error\<close> followed
  by the error detail, which is also logged.
\<close>

theorem resolver_failure_response:
  assumes "claimed pm" and "handle_requests en pm = (Inl e, t @ [Fetch u])"
  shows "(urlretrieve en u = BadReference \<longrightarrow>
            responseComplete en pm =
              Clear # t @
              [Fetch u, Log (log_prefix @ ''ParameterError''),
               SetHeader ''Content-type'' ''text/plain'',
               AppendBody (''The file `'' @ u @
                 ''` could not be found locally and not be retrieved as download.'')])
         \<and>
         (\<forall>n d. urlretrieve en u = FetchFailed n d \<longrightarrow>
            responseComplete en pm =
              Clear # t @
              [Fetch u, Log (log_prefix @ n), SetHeader ''Content-type'' ''text/plain'',
               Log (log_prefix @ '' '' @ format_exc en (OtherError n d)),
               AppendBody ''Unhandled error'',
               AppendBody (format_exc en (OtherError n d))])"
  using failed_download [OF assms(2)] assms
  by (auto simp: responseComplete_def on_exception_def download_def not_found_message_def)

theorem resolver_failure_response_witness:
  "responseComplete offline_env sample_request =
     [Clear, Resolve ''map.json'', Fetch ''map.json'',
      Log ''RenderGeojson.responseComplete :: ParameterError'',
      SetHeader ''Content-type'' ''text/plain'',
      AppendBody ''The file `map.json` could not be found locally and not be retrieved as download.'']
   \<and>
   responseComplete unreachable_env sample_request =
     [Clear, Resolve ''map.json'', Fetch ''map.json'',
      Log ''RenderGeojson.responseComplete :: URLError'',
      SetHeader ''Content-type'' ''text/plain'',
      Log ''RenderGeojson.responseComplete ::  Traceback (most recent call last): URLError'',
      AppendBody ''Unhandled error'',
      AppendBody ''Traceback (most recent call last): URLError'']"
proof -
  have a: "handle_requests offline_env sample_request =
     (Inl (ParameterError
        ''The file `map.json` could not be found locally and not be retrieved as download.''),
      [Resolve ''map.json''] @ [Fetch ''map.json''])"
    using offline_sample_run by simp
  have b: "handle_requests unreachable_env sample_request =
     (Inl (OtherError ''URLError'' ''Name or service not known''),
      [Resolve ''map.json''] @ [Fetch ''map.json''])"
    using unreachable_sample_run by simp
  show ?thesis
    using resolver_failure_response [OF sample_request_claimed a]
      resolver_failure_response [OF sample_request_claimed b]
    by (simp add: sample_envs log_prefix_def sample_format_exc_def)
qed




text \<open>
  C9. If SERVICE is absent or its upper-cased value is not \<^verbatim>\<open>RENDERGEOJSON\<close>,
  the dispatcher causes no event at all: the request is left as it was,
  whatever the other parameters are. For a claimed request the first event is
  the clearing of the response, the events of the pipeline follow it, the
  response is never cleared again, the content type is set exactly once, a body
  is written, and the final response does not depend on the one that existed
  before.
\<close>

theorem dispatcher_frame:
  "((pm ''SERVICE'' = None \<or> (\<exists>s. pm ''SERVICE'' = Some s \<and> py_upper s \<noteq> ''RENDERGEOJSON'')) \<longrightarrow>
      responseComplete en pm = [] \<and> response_after r (responseComplete en pm) = r)
   \<and>
   ((\<exists>s. pm ''SERVICE'' = Some s \<and> py_upper s = ''RENDERGEOJSON'') \<longrightarrow>
      (\<exists>rest. responseComplete en pm = Clear # snd (handle_requests en pm) @ rest) \<and>
      Clear \<notin> set (tl (responseComplete en pm)) \<and>
      length (header_sets (responseComplete en pm)) = 1 \<and>
      (\<exists>b. AppendBody b \<in> set (responseComplete en pm)) \<and>
      response_after r (responseComplete en pm) =
        response_after \<lparr>headers = [], body = []\<rparr> (tl (responseComplete en pm)))"
proof -
  have u: "py_upper [] \<noteq> ''RENDERGEOJSON''" by (simp add: py_upper_def)
  have a: "(pm ''SERVICE'' = None \<or> (\<exists>s. pm ''SERVICE'' = Some s \<and> py_upper s \<noteq> ''RENDERGEOJSON'')) \<longrightarrow>
      responseComplete en pm = [] \<and> response_after r (responseComplete en pm) = r"
    using u by (auto simp: responseComplete_def claimed_def response_after_def)
  have b: "(\<exists>s. pm ''SERVICE'' = Some s \<and> py_upper s = ''RENDERGEOJSON'') \<longrightarrow>
      (\<exists>rest. responseComplete en pm = Clear # snd (handle_requests en pm) @ rest) \<and>
      Clear \<notin> set (tl (responseComplete en pm)) \<and>
      length (header_sets (responseComplete en pm)) = 1 \<and>
      (\<exists>b. AppendBody b \<in> set (responseComplete en pm)) \<and>
      response_after r (responseComplete en pm) =
        response_after \<lparr>headers = [], body = []\<rparr> (tl (responseComplete en pm))"
  proof
    assume "\<exists>s. pm ''SERVICE'' = Some s \<and> py_upper s = ''RENDERGEOJSON''"
    then have c: "claimed pm" by (auto simp: claimed_def)
    from claimed_run [OF c, of en] obtain rest where
      r: "responseComplete en pm = Clear # snd (handle_requests en pm) @ rest" by blast
    have "response_after r (responseComplete en pm) =
        response_after \<lparr>headers = [], body = []\<rparr> (tl (responseComplete en pm))"
      by (simp add: r response_after_Clear)
    with claimed_run [OF c, of en] show
      "(\<exists>rest. responseComplete en pm = Clear # snd (handle_requests en pm) @ rest) \<and>
      Clear \<notin> set (tl (responseComplete en pm)) \<and>
      length (header_sets (responseComplete en pm)) = 1 \<and>
      (\<exists>b. AppendBody b \<in> set (responseComplete en pm)) \<and>
      response_after r (responseComplete en pm) =
        response_after \<lparr>headers = [], body = []\<rparr> (tl (responseComplete en pm))"
      by simp
  qed
  from a b show ?thesis by (rule conjI)
qed

theorem dispatcher_frame_witness:
  "responseComplete mirror_env (sample_request(''SERVICE'' \<mapsto> ''WMS'')) = [] \<and>
   responseComplete mirror_env (sample_request(''SERVICE'' := None)) = [] \<and>
   hd (responseComplete mirror_env sample_request) = Clear \<and>
   Clear \<notin> set (tl (responseComplete mirror_env sample_request)) \<and>
   length (header_sets (responseComplete mirror_env sample_request)) = 1"
proof -
  have u: "py_upper ''WMS'' \<noteq> ''RENDERGEOJSON''" "py_upper ''RenderGeojson'' = ''RENDERGEOJSON''"
    by code_simp+
  have s: "sample_request ''SERVICE'' = Some ''RenderGeojson''"
    by (simp add: sample_request_def)
  note a = dispatcher_frame [of "sample_request(''SERVICE'' \<mapsto> ''WMS'')" mirror_env
      "\<lparr>headers = [], body = []\<rparr>"]
  note b = dispatcher_frame [of "sample_request(''SERVICE'' := None)" mirror_env
      "\<lparr>headers = [], body = []\<rparr>"]
  note c = dispatcher_frame [of sample_request mirror_env "\<lparr>headers = [], body = []\<rparr>"]
  from c obtain rest where
    "responseComplete mirror_env sample_request =
       Clear # snd (handle_requests mirror_env sample_request) @ rest"
    by (auto simp: u s)
  then have h: "hd (responseComplete mirror_env sample_request) = Clear" by simp
  from a b c h show ?thesis by (simp add: u s)
qed

text \<open>
  C1, at the failing input. With \<^verbatim>\<open>WIDTH=abc\<close> (and likewise \<^verbatim>\<open>HEIGHT=abc\<close>)
  and every other parameter valid, the conversion raises \<^verbatim>\<open>ValueError\<close>, which
  the handler of lines 89 and 93 does not catch: the request is answered in the
  unexpected-error form and not with \<^verbatim>\<open>Parameter WIDTH must be integer.\<close>
\<close>

theorem width_text_unhandled:
  "validate (sample_request(''WIDTH'' \<mapsto> ''abc'')) = Inl (ValueError ''abc'') \<and>
   responseComplete en (sample_request(''WIDTH'' \<mapsto> ''abc'')) =
     [Clear, Log ''RenderGeojson.responseComplete :: ValueError'',
      SetHeader ''Content-type'' ''text/plain'',
      Log (''RenderGeojson.responseComplete ::  '' @ format_exc en (ValueError ''abc'')),
      AppendBody ''Unhandled error'', AppendBody (format_exc en (ValueError ''abc''))] \<and>
   renders (responseComplete en (sample_request(''WIDTH'' \<mapsto> ''abc''))) = [] \<and>
   validate (sample_request(''HEIGHT'' \<mapsto> ''abc'')) = Inl (ValueError ''abc'') \<and>
   responseComplete en (sample_request(''HEIGHT'' \<mapsto> ''abc'')) =
     [Clear, Log ''RenderGeojson.responseComplete :: ValueError'',
      SetHeader ''Content-type'' ''text/plain'',
      Log (''RenderGeojson.responseComplete ::  '' @ format_exc en (ValueError ''abc'')),
      AppendBody ''Unhandled error'', AppendBody (format_exc en (ValueError ''abc''))]"
proof -
  have w: "validate (sample_request(''WIDTH'' \<mapsto> ''abc'')) = Inl (ValueError ''abc'')"
    by (simp add: validate_def sample_request_def get_geojson_def get_style_def get_width_def
        not_integers)
  have h: "validate (sample_request(''HEIGHT'' \<mapsto> ''abc'')) = Inl (ValueError ''abc'')"
    by (simp add: validate_def sample_request_def get_geojson_def get_style_def get_width_def
        get_height_def not_integers sample_numbers)
  show ?thesis
    using unhandled_value_error [OF sample_request_claimed_upd w, of en]
      unhandled_value_error [OF sample_request_claimed_upd h, of en]
    by (simp add: w h renders_def)
qed

text \<open>
  C2, at the failing input. Without DPI the resolution is 96 and with
  \<^verbatim>\<open>DPI=10\<close> it is 10, but with \<^verbatim>\<open>DPI=x\<close> the conversion raises
  \<^verbatim>\<open>ValueError\<close>, which neither handler of lines 98 and 100 catches: the
  request is answered in the unexpected-error form and not with
  \<^verbatim>\<open>Parameter DPI must be integer.\<close>
\<close>

theorem dpi_text_unhandled:
  "get_dpi (sample_request(''DPI'' := None)) = Inr 96 \<and>
   get_dpi (sample_request(''DPI'' \<mapsto> ''10'')) = Inr 10 \<and>
   validate (sample_request(''DPI'' \<mapsto> ''x'')) = Inl (ValueError ''x'') \<and>
   responseComplete en (sample_request(''DPI'' \<mapsto> ''x'')) =
     [Clear, Log ''RenderGeojson.responseComplete :: ValueError'',
      SetHeader ''Content-type'' ''text/plain'',
      Log (''RenderGeojson.responseComplete ::  '' @ format_exc en (ValueError ''x'')),
      AppendBody ''Unhandled error'', AppendBody (format_exc en (ValueError ''x''))]"
proof -
  have d: "validate (sample_request(''DPI'' \<mapsto> ''x'')) = Inl (ValueError ''x'')"
    by (simp add: validate_def sample_request_def get_geojson_def get_style_def get_width_def
        get_height_def get_dpi_def not_integers sample_numbers)
  show ?thesis
    using unhandled_value_error [OF sample_request_claimed_upd d, of en]
    by (simp add: d get_dpi_def not_integers)
qed

end
